theory Spec2Isabelle
  imports Complex_Main
begin

section \<open>JavaScript values\<close>

text \<open>
  The proxy of \<^verbatim>\<open>src/server.js\<close> handles JSON documents with untyped JavaScript: property
  reads, optional chaining, \<^verbatim>\<open>||\<close> on truthiness and \<^verbatim>\<open>+\<close> on strings. The values are
  modelled as they are at run time. A number is carried around and tested against zero,
  never computed with; it is written as the rational its shortest decimal text denotes
  (\<^verbatim>\<open>0.7\<close> is \<open>7/10\<close>). An object is the list of its own properties, looked up by key.
  \<open>JStream\<close> is a readable stream (the \<^verbatim>\<open>response.data\<close> of a streamed reply) with the
  chunks it will deliver.
\<close>

datatype jsval =
    JUndefined
  | JNull
  | JBool bool
  | JNum rat
  | JStr string
  | JArr "jsval list"
  | JObj "(string \<times> jsval) list"
  | JStream "string list"

text \<open>\<^verbatim>\<open>v == null\<close>: the two values on which a property read throws.\<close>

fun nullish :: "jsval \<Rightarrow> bool" where
  "nullish JUndefined = True"
| "nullish JNull = True"
| "nullish _ = False"

text \<open>ToBoolean. Every object, array and stream is truthy.\<close>

fun truthy :: "jsval \<Rightarrow> bool" where
  "truthy JUndefined = False"
| "truthy JNull = False"
| "truthy (JBool b) = b"
| "truthy (JNum q) = (q \<noteq> 0)"
| "truthy (JStr s) = (s \<noteq> [])"
| "truthy _ = True"

text \<open>\<^verbatim>\<open>a || b\<close>\<close>

definition js_or :: "jsval \<Rightarrow> jsval \<Rightarrow> jsval" where
  "js_or a b = (if truthy a then a else b)"

text \<open>
  \<^verbatim>\<open>v.k\<close> on a value that is not nullish, for the property names the source reads
  (none of them is inherited from a prototype): the own property of an object,
  \<^verbatim>\<open>undefined\<close> on everything else. The caller checks \<open>nullish\<close> first, where the
  source would throw.
\<close>

fun js_get :: "jsval \<Rightarrow> string \<Rightarrow> jsval" where
  "js_get (JObj kvs) k = (case map_of kvs k of Some v \<Rightarrow> v | None \<Rightarrow> JUndefined)"
| "js_get _ k = JUndefined"

text \<open>\<^verbatim>\<open>v?.k\<close>\<close>

definition opt_get :: "jsval \<Rightarrow> string \<Rightarrow> jsval" where
  "opt_get v k = (if nullish v then JUndefined else js_get v k)"

text \<open>\<^verbatim>\<open>Array.prototype.join(',')\<close> on strings.\<close>

fun join_comma :: "string list \<Rightarrow> string" where
  "join_comma [] = []"
| "join_comma [s] = s"
| "join_comma (s # t # ss) = s @ '','' @ join_comma (t # ss)"

text \<open>
  The text of a value as an operand of \<^verbatim>\<open>+\<close> (ToPrimitive, then ToString); \<open>None\<close> is a
  \<^verbatim>\<open>TypeError\<close>. The text of a number is the engine's (\<^verbatim>\<open>Number::toString\<close>), taken as
  the parameter \<open>num\<close>. An array joins the texts of its elements with commas, a nullish
  element giving the empty string. An object parsed from JSON is \<^verbatim>\<open>[object Object]\<close>,
  unless it has an own property \<^verbatim>\<open>toString\<close>: that hides the inherited method and is
  not callable, so the conversion throws. (An own \<^verbatim>\<open>valueOf\<close> is skipped for the same
  reason and changes nothing.)
\<close>

fun to_string :: "(rat \<Rightarrow> string) \<Rightarrow> jsval \<Rightarrow> string option" where
  "to_string num JUndefined = Some ''undefined''"
| "to_string num JNull = Some ''null''"
| "to_string num (JBool b) = Some (if b then ''true'' else ''false'')"
| "to_string num (JNum q) = Some (num q)"
| "to_string num (JStr s) = Some s"
| "to_string num (JArr xs) =
     map_option join_comma
       (those (map (\<lambda>x. if nullish x then Some [] else to_string num x) xs))"
| "to_string num (JObj kvs) =
     (if map_of kvs ''toString'' = None then Some ''[object Object]'' else None)"
| "to_string num (JStream cs) = Some ''[object Object]''"

text \<open>
  The decimal text of an integer, which is what a template literal gives for
  \<^verbatim>\<open>Date.now()\<close>.
\<close>

fun dec_nat :: "nat \<Rightarrow> string" where
  "dec_nat n =
     (if n < 10 then [''0123456789'' ! n]
      else dec_nat (n div 10) @ [''0123456789'' ! (n mod 10)])"

definition dec_int :: "int \<Rightarrow> string" where
  "dec_int i = (if i < 0 then ''-'' @ dec_nat (nat (- i)) else dec_nat (nat i))"

text \<open>\<^verbatim>\<open>s.startsWith(p)\<close>\<close>

definition startsWith :: "string \<Rightarrow> string \<Rightarrow> bool" where
  "startsWith s p = (take (length p) s = p)"

text \<open>
  \<^verbatim>\<open>s.replace(p, r)\<close> with a string pattern: the first occurrence of \<open>p\<close> is replaced.
  The replacement of the source is the empty string, so no \<^verbatim>\<open>$\<close> pattern arises.
\<close>

fun replace_first :: "string \<Rightarrow> string \<Rightarrow> string \<Rightarrow> string" where
  "replace_first p r [] = (if p = [] then r else [])"
| "replace_first p r (c # cs) =
     (if startsWith (c # cs) p then r @ drop (length p) (c # cs)
      else c # replace_first p r cs)"

section \<open>Errors, configuration, request and response\<close>

text \<open>
  What \<^verbatim>\<open>axios.post\<close> resolves with (the fields the source reads), and what the
  \<^verbatim>\<open>catch\<close> block reads of a thrown error: its message, and the upstream response when
  the error carries one.
\<close>

record axios_response =
  ax_status :: nat
  ax_data :: jsval

record js_error =
  err_message :: string
  err_response :: "axios_response option"

record axios_config =
  cfg_headers :: "(string \<times> string) list"
  cfg_responseType :: string

text \<open>The environment variables read at start-up: a string, or \<^verbatim>\<open>undefined\<close>.\<close>

record env =
  env_NIM_API_BASE :: "string option"
  env_NIM_API_KEY :: "string option"
  env_PROXY_SECRET :: "string option"

definition NIM_API_BASE :: "env \<Rightarrow> string" where
  "NIM_API_BASE e =
     (case env_NIM_API_BASE e of
        None \<Rightarrow> ''https://integrate.api.nvidia.com/v1''
      | Some s \<Rightarrow> if s = [] then ''https://integrate.api.nvidia.com/v1'' else s)"

definition NIM_API_KEY :: "env \<Rightarrow> string option" where
  "NIM_API_KEY e = env_NIM_API_KEY e"

definition PROXY_SECRET :: "env \<Rightarrow> string option" where
  "PROXY_SECRET e = env_PROXY_SECRET e"

text \<open>
  What the handlers take from their surroundings: the successive readings of
  \<^verbatim>\<open>Date.now()\<close> within one request (milliseconds, an integer), the engine's text of a
  number, the message the engine gives a \<^verbatim>\<open>TypeError\<close> (from the value and the name
  being read), \<^verbatim>\<open>decodeURIComponent\<close> (\<open>None\<close> where it throws) and the outbound call.
\<close>

record runtime =
  rt_now :: "nat \<Rightarrow> int"
  rt_number_to_string :: "rat \<Rightarrow> string"
  rt_type_error_message :: "jsval \<Rightarrow> string \<Rightarrow> string"
  rt_decodeURIComponent :: "string \<Rightarrow> string option"
  rt_axios_post :: "string \<Rightarrow> jsval \<Rightarrow> axios_config \<Rightarrow> js_error + axios_response"

definition type_error :: "runtime \<Rightarrow> jsval \<Rightarrow> string \<Rightarrow> js_error" where
  "type_error rt v k =
     \<lparr>err_message = rt_type_error_message rt v k, err_response = None\<rparr>"

text \<open>
  \<^verbatim>\<open>a + b\<close> where one operand is a string, which is so at both uses in the source
  (a string literal on the left, a string on the right): the operands are converted
  from left to right and their texts concatenated.
\<close>

definition js_plus :: "runtime \<Rightarrow> jsval \<Rightarrow> jsval \<Rightarrow> js_error + jsval" where
  "js_plus rt a b =
     (case to_string (rt_number_to_string rt) a of
        None \<Rightarrow> Inl (type_error rt a ''toString'')
      | Some s \<Rightarrow>
          (case to_string (rt_number_to_string rt) b of
             None \<Rightarrow> Inl (type_error rt b ''toString'')
           | Some t \<Rightarrow> Inr (JStr (s @ t))))"

text \<open>
  A request with its body parsed by \<^verbatim>\<open>express.json()\<close>: method, \<^verbatim>\<open>req.path\<close>,
  \<^verbatim>\<open>req.headers.authorization\<close> and \<^verbatim>\<open>req.body\<close>.
\<close>

record request =
  req_method :: string
  req_path :: string
  req_authorization :: "string option"
  req_body :: jsval

text \<open>
  The response object: the status, the headers the source sets with
  \<^verbatim>\<open>setHeader\<close>, and what was sent: a value given to \<^verbatim>\<open>res.json\<close>, the chunks piped
  into it, or nothing. The headers the libraries add (\<^verbatim>\<open>cors()\<close> its
  \<^verbatim>\<open>Access-Control\<close> headers, Express those of a JSON body) are not listed.
\<close>

datatype payload = Json jsval | Piped "string list"

record res =
  res_statusCode :: nat
  res_headers :: "(string \<times> string) list"
  res_body :: "payload option"

definition res0 :: res where
  "res0 = \<lparr>res_statusCode = 200, res_headers = [], res_body = None\<rparr>"

definition res_status :: "nat \<Rightarrow> res \<Rightarrow> res" where
  "res_status c r = r\<lparr>res_statusCode := c\<rparr>"

definition res_setHeader :: "string \<Rightarrow> string \<Rightarrow> res \<Rightarrow> res" where
  "res_setHeader k v r =
     r\<lparr>res_headers := filter (\<lambda>kv. fst kv \<noteq> k) (res_headers r) @ [(k, v)]\<rparr>"

definition res_json :: "jsval \<Rightarrow> res \<Rightarrow> res" where
  "res_json v r = r\<lparr>res_body := Some (Json v)\<rparr>"

section \<open>The middlewares\<close>

datatype outcome = Responded res | Next

text \<open>
  \<^verbatim>\<open>app.use(cors())\<close> comes first. With its default options it answers every
  \<^verbatim>\<open>OPTIONS\<close> request itself, with status 204 and no body, and passes every other
  request on.
\<close>

definition cors_middleware :: "request \<Rightarrow> res \<Rightarrow> outcome" where
  "cors_middleware req r =
     (if req_method req = ''OPTIONS'' then Responded (res_status 204 r) else Next)"

definition auth_error :: "string \<Rightarrow> jsval" where
  "auth_error msg =
     JObj [(''error'', JObj [(''message'', JStr msg), (''type'', JStr ''authentication_error'')])]"

definition auth_middleware :: "env \<Rightarrow> request \<Rightarrow> res \<Rightarrow> outcome" where
  "auth_middleware e req r =
     (if req_path req = ''/health'' then Next
      else case req_authorization req of
        None \<Rightarrow>
          Responded (res_json (auth_error ''Unauthorized: Missing API key'') (res_status 401 r))
      | Some authHeader \<Rightarrow>
          if authHeader = [] \<or> \<not> startsWith authHeader ''Bearer '' then
            Responded (res_json (auth_error ''Unauthorized: Missing API key'') (res_status 401 r))
          else
            let providedKey = replace_first ''Bearer '' [] authHeader in
            if Some providedKey \<noteq> PROXY_SECRET e then
              Responded (res_json (auth_error ''Unauthorized: Invalid API key'') (res_status 401 r))
            else Next)"

section \<open>Routing\<close>

text \<open>
  Express matches a route path without regard to case and allows one trailing slash;
  a route registered with \<^verbatim>\<open>app.get\<close> also serves \<^verbatim>\<open>HEAD\<close>. The paths of the source are in
  lower case, so the request path is compared in lower case. \<^verbatim>\<open>app.all('*')\<close> matches
  every request and takes the whole path as a route parameter, which Express decodes
  with \<^verbatim>\<open>decodeURIComponent\<close> before it calls the handler: when the path does not decode,
  Express answers with status 400 itself and the handler is not called.
\<close>

definition lower_ascii :: "char \<Rightarrow> char" where
  "lower_ascii c =
     (case map_of (zip ''ABCDEFGHIJKLMNOPQRSTUVWXYZ'' ''abcdefghijklmnopqrstuvwxyz'') c of
        Some d \<Rightarrow> d
      | None \<Rightarrow> c)"

definition path_matches :: "string \<Rightarrow> string \<Rightarrow> bool" where
  "path_matches route p =
     (let q = map lower_ascii p in q = route \<or> q = route @ ''/'')"

definition get_route :: "string \<Rightarrow> request \<Rightarrow> bool" where
  "get_route route req =
     ((req_method req = ''GET'' \<or> req_method req = ''HEAD'') \<and> path_matches route (req_path req))"

definition post_route :: "string \<Rightarrow> request \<Rightarrow> bool" where
  "post_route route req =
     (req_method req = ''POST'' \<and> path_matches route (req_path req))"

section \<open>Health check, model list and catch-all\<close>

definition health_body :: jsval where
  "health_body =
     JObj [(''status'', JStr ''ok''),
           (''service'', JStr ''OpenAI to NVIDIA NIM Proxy''),
           (''authenticated'', JBool True)]"

definition health_handler :: "res \<Rightarrow> res" where
  "health_handler r = res_json health_body r"

definition model_entry :: "string \<Rightarrow> int \<Rightarrow> jsval" where
  "model_entry name t =
     JObj [(''id'', JStr name), (''object'', JStr ''model''),
           (''created'', JNum (of_int t)), (''owned_by'', JStr ''nvidia-nim-proxy'')]"

definition models_handler :: "runtime \<Rightarrow> res \<Rightarrow> res" where
  "models_handler rt r =
     (let models = JArr [model_entry ''gpt-4o'' (rt_now rt 0), model_entry ''gpt-4'' (rt_now rt 1)]
      in res_json (JObj [(''object'', JStr ''list''), (''data'', models)]) r)"

definition not_found_body :: "string \<Rightarrow> jsval" where
  "not_found_body p =
     JObj [(''error'',
            JObj [(''message'', JStr (''Endpoint '' @ p @ '' not found'')),
                  (''type'', JStr ''invalid_request_error''),
                  (''code'', JNum 404)])]"

definition not_found_handler :: "request \<Rightarrow> res \<Rightarrow> res" where
  "not_found_handler req r = res_json (not_found_body (req_path req)) (res_status 404 r)"

section \<open>Chat completions\<close>

definition nimModel :: string where
  "nimModel = ''z-ai/glm4.7''"

definition nimRequest :: "jsval \<Rightarrow> jsval \<Rightarrow> jsval \<Rightarrow> jsval \<Rightarrow> jsval" where
  "nimRequest messages temperature max_tokens stream =
     JObj [(''model'', JStr nimModel),
           (''messages'', messages),
           (''temperature'', js_or temperature (JNum (7 / 10))),
           (''max_tokens'', js_or max_tokens (JNum 2048)),
           (''stream'', js_or stream (JBool False))]"

text \<open>The third argument of \<^verbatim>\<open>axios.post\<close>; the template literal prints a missing key as
  \<^verbatim>\<open>undefined\<close>.\<close>

definition axios_options :: "env \<Rightarrow> jsval \<Rightarrow> axios_config" where
  "axios_options e stream =
     \<lparr>cfg_headers =
        [(''Authorization'',
          ''Bearer '' @ (case NIM_API_KEY e of None \<Rightarrow> ''undefined'' | Some k \<Rightarrow> k)),
         (''Content-Type'', ''application/json'')],
      cfg_responseType = (if truthy stream then ''stream'' else ''json'')\<rparr>"

text \<open>
  The callback of \<^verbatim>\<open>choices.map\<close>. Reading \<^verbatim>\<open>choice.message\<close> throws on a nullish choice,
  the two \<^verbatim>\<open>+\<close> throw on an operand that has no text (the inner one is evaluated
  first), and \<^verbatim>\<open>choice.message.role\<close> throws on a nullish message.
\<close>

definition blank_line :: string where
  "blank_line = [CHR 0x0A, CHR 0x0A]"

definition merged_content :: "runtime \<Rightarrow> jsval \<Rightarrow> js_error + jsval" where
  "merged_content rt message =
     (let content = js_or (opt_get message ''content'') (JStr [])
      in if truthy (opt_get message ''reasoning_content'') then
           (case (if truthy content then js_plus rt (JStr blank_line) content
                  else Inr (JStr [])) of
              Inl err \<Rightarrow> Inl err
            | Inr rest \<Rightarrow> js_plus rt (js_get message ''reasoning_content'') rest)
         else Inr content)"

definition translate_choice :: "runtime \<Rightarrow> jsval \<Rightarrow> js_error + jsval" where
  "translate_choice rt choice =
     (if nullish choice then Inl (type_error rt choice ''message'')
      else
        let message = js_get choice ''message'' in
        case merged_content rt message of
          Inl err \<Rightarrow> Inl err
        | Inr content \<Rightarrow>
            if nullish message then Inl (type_error rt message ''role'')
            else Inr (JObj [(''index'', js_get choice ''index''),
                            (''message'', JObj [(''role'', js_get message ''role''),
                                                (''content'', content)]),
                            (''finish_reason'', js_get choice ''finish_reason'')]))"

text \<open>\<^verbatim>\<open>Array.prototype.map\<close> with a callback that may throw: the first throw ends it.\<close>

fun map_throw :: "('a \<Rightarrow> 'e + 'b) \<Rightarrow> 'a list \<Rightarrow> 'e + 'b list" where
  "map_throw f [] = Inr []"
| "map_throw f (x # xs) =
     (case f x of
        Inl err \<Rightarrow> Inl err
      | Inr y \<Rightarrow> (case map_throw f xs of Inl err \<Rightarrow> Inl err | Inr ys \<Rightarrow> Inr (y # ys)))"

text \<open>
  The spec's data model has the content and the reasoning content of a message as
  text: a string, or nothing (absent or \<^verbatim>\<open>null\<close>).
\<close>

fun is_text :: "jsval \<Rightarrow> bool" where
  "is_text JUndefined = True"
| "is_text JNull = True"
| "is_text (JStr s) = True"
| "is_text _ = False"

definition zero_usage :: jsval where
  "zero_usage =
     JObj [(''prompt_tokens'', JNum 0), (''completion_tokens'', JNum 0), (''total_tokens'', JNum 0)]"

text \<open>
  The envelope of the non-streaming branch, from the client's \<^verbatim>\<open>model\<close> and
  \<^verbatim>\<open>response.data\<close>. \<^verbatim>\<open>data.choices.map\<close> throws when \<^verbatim>\<open>data\<close> is nullish and when
  \<^verbatim>\<open>choices\<close> is not an array.
\<close>

definition openaiResponse :: "runtime \<Rightarrow> jsval \<Rightarrow> jsval \<Rightarrow> js_error + jsval" where
  "openaiResponse rt model data =
     (if nullish data then Inl (type_error rt data ''choices'')
      else case js_get data ''choices'' of
        JArr cs \<Rightarrow>
          (case map_throw (translate_choice rt) cs of
             Inl err \<Rightarrow> Inl err
           | Inr choices \<Rightarrow>
               Inr (JObj [(''id'', JStr (''chatcmpl-'' @ dec_int (rt_now rt 0))),
                          (''object'', JStr ''chat.completion''),
                          (''created'', JNum (of_int (rt_now rt 1 div 1000))),
                          (''model'', model),
                          (''choices'', JArr choices),
                          (''usage'', js_or (js_get data ''usage'') zero_usage)]))
      | v \<Rightarrow> Inl (type_error rt v ''map''))"

text \<open>The \<^verbatim>\<open>catch\<close> block.\<close>

definition error_status :: "js_error \<Rightarrow> nat" where
  "error_status err =
     (case err_response err of
        None \<Rightarrow> 500
      | Some response \<Rightarrow> if ax_status response = 0 then 500 else ax_status response)"

text \<open>\<^verbatim>\<open>error.response?.data?.error?.message\<close>\<close>

definition upstream_message :: "js_error \<Rightarrow> jsval" where
  "upstream_message err =
     (case err_response err of
        None \<Rightarrow> JUndefined
      | Some response \<Rightarrow> opt_get (opt_get (ax_data response) ''error'') ''message'')"

definition error_message :: "js_error \<Rightarrow> jsval" where
  "error_message err =
     js_or (js_or (upstream_message err) (JStr (err_message err))) (JStr ''Internal server error'')"

definition catch_block :: "js_error \<Rightarrow> res \<Rightarrow> res" where
  "catch_block err r =
     res_json
       (JObj [(''error'',
               JObj [(''message'', error_message err),
                     (''type'', JStr ''invalid_request_error''),
                     (''code'', JNum (of_nat (error_status err)))])])
       (res_status (error_status err) r)"

definition event_stream_headers :: "res \<Rightarrow> res" where
  "event_stream_headers r =
     res_setHeader ''Connection'' ''keep-alive''
       (res_setHeader ''Cache-Control'' ''no-cache''
          (res_setHeader ''Content-Type'' ''text/event-stream'' r))"

text \<open>\<^verbatim>\<open>response.data.pipe(res)\<close>: the chunks of the stream go out as they are.\<close>

definition pipe :: "runtime \<Rightarrow> jsval \<Rightarrow> res \<Rightarrow> js_error + res" where
  "pipe rt data r =
     (case data of
        JStream chunks \<Rightarrow> Inr (r\<lparr>res_body := Some (Piped chunks)\<rparr>)
      | v \<Rightarrow> Inl (type_error rt v ''pipe''))"

text \<open>
  The outbound call of a request body: destructuring a nullish body throws before any
  call is made.
\<close>

definition outbound :: "env \<Rightarrow> jsval \<Rightarrow> (string \<times> jsval \<times> axios_config) option" where
  "outbound e body =
     (if nullish body then None
      else Some (NIM_API_BASE e @ ''/chat/completions'',
                 nimRequest (js_get body ''messages'') (js_get body ''temperature'')
                   (js_get body ''max_tokens'') (js_get body ''stream''),
                 axios_options e (js_get body ''stream'')))"

text \<open>
  The \<^verbatim>\<open>try\<close> block. \<open>Inl\<close> is a throw: the error, and the response object as it is
  at the throw.
\<close>

definition chat_try :: "env \<Rightarrow> runtime \<Rightarrow> request \<Rightarrow> res \<Rightarrow> (js_error \<times> res) + res" where
  "chat_try e rt req r =
     (case outbound e (req_body req) of
        None \<Rightarrow> Inl (type_error rt (req_body req) ''model'', r)
      | Some (url, nimReq, options) \<Rightarrow>
          (case rt_axios_post rt url nimReq options of
             Inl err \<Rightarrow> Inl (err, r)
           | Inr response \<Rightarrow>
               if truthy (js_get (req_body req) ''stream'') then
                 (case pipe rt (ax_data response) (event_stream_headers r) of
                    Inl err \<Rightarrow> Inl (err, event_stream_headers r)
                  | Inr r' \<Rightarrow> Inr r')
               else
                 (case openaiResponse rt (js_get (req_body req) ''model'') (ax_data response) of
                    Inl err \<Rightarrow> Inl (err, r)
                  | Inr v \<Rightarrow> Inr (res_json v r))))"

definition chat_completions :: "env \<Rightarrow> runtime \<Rightarrow> request \<Rightarrow> res \<Rightarrow> res" where
  "chat_completions e rt req r =
     (case chat_try e rt req r of
        Inl (err, r') \<Rightarrow> catch_block err r'
      | Inr r' \<Rightarrow> r')"

section \<open>The application\<close>

definition router :: "env \<Rightarrow> runtime \<Rightarrow> request \<Rightarrow> res \<Rightarrow> res" where
  "router e rt req r =
     (if get_route ''/health'' req then health_handler r
      else if get_route ''/v1/models'' req then models_handler rt r
      else if post_route ''/v1/chat/completions'' req then chat_completions e rt req r
      else case rt_decodeURIComponent rt (req_path req) of
             None \<Rightarrow> res_status 400 r
           | Some param \<Rightarrow> not_found_handler req r)"

definition app :: "env \<Rightarrow> runtime \<Rightarrow> request \<Rightarrow> res" where
  "app e rt req =
     (case cors_middleware req res0 of
        Responded r \<Rightarrow> r
      | Next \<Rightarrow>
          (case auth_middleware e req res0 of
             Responded r \<Rightarrow> r
           | Next \<Rightarrow> router e rt req res0))"

section \<open>Sample surroundings\<close>

text \<open>
  A configuration with the secret \<^verbatim>\<open>s3cret\<close>, one without a secret, and a runtime whose
  outbound call gives a fixed result; they serve as concrete inputs below. The sample
  \<^verbatim>\<open>decodeURIComponent\<close> is right on the paths without an escape, which decode to
  themselves, and is used on those only.
\<close>

definition sample_env :: env where
  "sample_env =
     \<lparr>env_NIM_API_BASE = None, env_NIM_API_KEY = Some ''nvapi-1'', env_PROXY_SECRET = Some ''s3cret''\<rparr>"

definition open_env :: env where
  "open_env = \<lparr>env_NIM_API_BASE = None, env_NIM_API_KEY = None, env_PROXY_SECRET = None\<rparr>"

definition sample_runtime :: "js_error + axios_response \<Rightarrow> runtime" where
  "sample_runtime reply =
     \<lparr>rt_now = (\<lambda>i. 1700000000123 + int i),
      rt_number_to_string = (\<lambda>q. dec_int \<lfloor>q\<rfloor>),
      rt_type_error_message = (\<lambda>v k. ''Cannot read '' @ k),
      rt_decodeURIComponent = (\<lambda>s. if CHR ''%'' \<in> set s then None else Some s),
      rt_axios_post = (\<lambda>url nimReq options. reply)\<rparr>"

definition sample_request :: "string \<Rightarrow> string \<Rightarrow> string option \<Rightarrow> jsval \<Rightarrow> request" where
  "sample_request m p a b =
     \<lparr>req_method = m, req_path = p, req_authorization = a, req_body = b\<rparr>"

section \<open>Authentication and routing: the properties\<close>

lemma startsWith_append: "startsWith (p @ t) p"
  by (simp add: startsWith_def)

lemma replace_first_prefix:
  "startsWith s p \<Longrightarrow> s \<noteq> [] \<Longrightarrow> replace_first p [] s = drop (length p) s"
  by (cases s) simp_all

lemma providedKey_Bearer:
  "startsWith h ''Bearer '' \<Longrightarrow> replace_first ''Bearer '' [] h = drop 7 h"
proof -
  assume a: "startsWith h ''Bearer ''"
  then have "h \<noteq> []" by (auto simp: startsWith_def)
  have l: "length ''Bearer '' = 7" by simp
  from a \<open>h \<noteq> []\<close> show ?thesis
    using replace_first_prefix [of h "''Bearer ''"] unfolding l by blast
qed

lemma res_json_fields:
  "res_statusCode (res_json v (res_status c r)) = c"
  "res_body (res_json v (res_status c r)) = Some (Json v)"
  by (simp_all add: res_json_def res_status_def)

lemma auth_error_type:
  "js_get (js_get (auth_error msg) ''error'') ''type'' = JStr ''authentication_error''"
  by (simp add: auth_error_def)

lemma auth_middleware_rejects:
  assumes "req_path req \<noteq> ''/health''"
    and "req_authorization req = None \<or>
         (\<exists>h. req_authorization req = Some h \<and>
              (\<not> startsWith h ''Bearer '' \<or> Some (drop 7 h) \<noteq> PROXY_SECRET e))"
  shows "\<exists>msg. auth_middleware e req r = Responded (res_json (auth_error msg) (res_status 401 r))"
  using assms
  by (auto simp: auth_middleware_def providedKey_Bearer Let_def split: option.splits)

lemma auth_middleware_accepts:
  assumes "req_authorization req = Some (''Bearer '' @ tok)" and "PROXY_SECRET e = Some tok"
  shows "auth_middleware e req r = Next"
proof -
  have s: "startsWith (''Bearer '' @ tok) ''Bearer ''" by (rule startsWith_append)
  have "replace_first ''Bearer '' [] (''Bearer '' @ tok) = tok"
    using providedKey_Bearer [OF s] by simp
  with assms s show ?thesis
    by (simp add: auth_middleware_def Let_def)
qed

lemma app_past_cors:
  "req_method req \<noteq> ''OPTIONS'' \<Longrightarrow>
     app e rt req =
       (case auth_middleware e req res0 of
          Responded r \<Rightarrow> r
        | Next \<Rightarrow> router e rt req res0)"
  by (simp add: app_def cors_middleware_def)

lemma app_preflight:
  "req_method req = ''OPTIONS'' \<Longrightarrow>
     app e rt req = \<lparr>res_statusCode = 204, res_headers = [], res_body = None\<rparr>"
  by (simp add: app_def cors_middleware_def res_status_def res0_def)

text \<open>
  C1, amended. A request other than an \<^verbatim>\<open>OPTIONS\<close> request, whose path is not
  \<^verbatim>\<open>/health\<close>, is answered with status 401 and a JSON body whose error has type
  \<^verbatim>\<open>authentication_error\<close> when the Authorization header is missing, does not start with
  \<^verbatim>\<open>Bearer \<close>, or carries after \<^verbatim>\<open>Bearer \<close> a token that is not exactly the configured
  secret. When the token is exactly the secret, the request goes on to the routes.
\<close>
theorem auth_rejects_or_proceeds:
  assumes "req_method req \<noteq> ''OPTIONS''" and "req_path req \<noteq> ''/health''"
  shows "((req_authorization req = None \<or>
           (\<exists>h. req_authorization req = Some h \<and>
                (\<not> startsWith h ''Bearer '' \<or> Some (drop 7 h) \<noteq> PROXY_SECRET e)))
          \<longrightarrow> res_statusCode (app e rt req) = 401 \<and>
              (\<exists>b. res_body (app e rt req) = Some (Json b) \<and>
                   js_get (js_get b ''error'') ''type'' = JStr ''authentication_error''))
       \<and> (\<forall>tok. req_authorization req = Some (''Bearer '' @ tok) \<and> PROXY_SECRET e = Some tok
          \<longrightarrow> app e rt req = router e rt req res0)"
proof (intro conjI impI allI)
  assume "req_authorization req = None \<or>
           (\<exists>h. req_authorization req = Some h \<and>
                (\<not> startsWith h ''Bearer '' \<or> Some (drop 7 h) \<noteq> PROXY_SECRET e))"
  from auth_middleware_rejects [OF assms(2) this]
  obtain msg where m: "auth_middleware e req res0 = Responded (res_json (auth_error msg) (res_status 401 res0))"
    by blast
  then have a: "app e rt req = res_json (auth_error msg) (res_status 401 res0)"
    by (simp add: app_past_cors [OF assms(1)])
  show "res_statusCode (app e rt req) = 401"
    by (simp add: a res_json_fields)
  show "\<exists>b. res_body (app e rt req) = Some (Json b) \<and>
                   js_get (js_get b ''error'') ''type'' = JStr ''authentication_error''"
    by (simp add: a res_json_fields auth_error_type)
next
  fix tok
  assume "req_authorization req = Some (''Bearer '' @ tok) \<and> PROXY_SECRET e = Some tok"
  then have "auth_middleware e req res0 = Next"
    by (simp add: auth_middleware_accepts)
  then show "app e rt req = router e rt req res0"
    by (simp add: app_past_cors [OF assms(1)])
qed


theorem auth_rejects_or_proceeds_witness:
  "res_statusCode (app sample_env (sample_runtime (Inl \<lparr>err_message = ''down'', err_response = None\<rparr>))
      (sample_request ''GET'' ''/v1/models'' (Some ''Bearer wrong'') JUndefined)) = 401
   \<and> app sample_env (sample_runtime (Inl \<lparr>err_message = ''down'', err_response = None\<rparr>))
      (sample_request ''GET'' ''/v1/models'' (Some ''Bearer s3cret'') JUndefined)
     = router sample_env (sample_runtime (Inl \<lparr>err_message = ''down'', err_response = None\<rparr>))
      (sample_request ''GET'' ''/v1/models'' (Some ''Bearer s3cret'') JUndefined) res0"
  using auth_rejects_or_proceeds [of "sample_request ''GET'' ''/v1/models'' (Some ''Bearer wrong'') JUndefined"
          sample_env "sample_runtime (Inl \<lparr>err_message = ''down'', err_response = None\<rparr>)"]
        auth_rejects_or_proceeds [of "sample_request ''GET'' ''/v1/models'' (Some ''Bearer s3cret'') JUndefined"
          sample_env "sample_runtime (Inl \<lparr>err_message = ''down'', err_response = None\<rparr>)"]
  by (simp add: sample_request_def sample_env_def PROXY_SECRET_def startsWith_def)

text \<open>
  C1 as stated fails on an \<^verbatim>\<open>OPTIONS\<close> request: \<^verbatim>\<open>cors()\<close> answers it with 204 before
  the authentication middleware runs, also when it carries no Authorization header.
\<close>
theorem preflight_skips_auth_counterexample:
  "app sample_env (sample_runtime (Inl \<lparr>err_message = ''down'', err_response = None\<rparr>))
      (sample_request ''OPTIONS'' ''/v1/models'' None JUndefined) =
     \<lparr>res_statusCode = 204, res_headers = [], res_body = None\<rparr>
   \<and> res_statusCode (app sample_env (sample_runtime (Inl \<lparr>err_message = ''down'', err_response = None\<rparr>))
      (sample_request ''OPTIONS'' ''/v1/models'' None JUndefined)) \<noteq> 401"
  by (simp add: app_preflight sample_request_def)

text \<open>
  C9, amended. When no secret is configured (\<^verbatim>\<open>PROXY_SECRET\<close> is \<^verbatim>\<open>undefined\<close>), the
  middleware never calls \<^verbatim>\<open>next\<close> on a path other than \<^verbatim>\<open>/health\<close>, whatever the
  Authorization header is: the extracted token is a string, and a string is never
  strictly equal to \<^verbatim>\<open>undefined\<close>. A request other than an \<^verbatim>\<open>OPTIONS\<close> request is answered
  with 401 and type \<^verbatim>\<open>authentication_error\<close>; the witness is the header
  \<^verbatim>\<open>Bearer undefined\<close>.
\<close>
theorem unconfigured_secret_rejects_all:
  assumes "PROXY_SECRET e = None" and "req_path req \<noteq> ''/health''"
    and "req_method req \<noteq> ''OPTIONS''"
  shows "auth_middleware e req res0 \<noteq> Next \<and>
         res_statusCode (app e rt req) = 401 \<and>
         (\<exists>b. res_body (app e rt req) = Some (Json b) \<and>
              js_get (js_get b ''error'') ''type'' = JStr ''authentication_error'')"
proof -
  have "req_authorization req = None \<or>
        (\<exists>h. req_authorization req = Some h \<and>
             (\<not> startsWith h ''Bearer '' \<or> Some (drop 7 h) \<noteq> PROXY_SECRET e))"
    using assms(1) by (cases "req_authorization req") simp_all
  from auth_middleware_rejects [OF assms(2) this]
  obtain msg where m: "auth_middleware e req res0 = Responded (res_json (auth_error msg) (res_status 401 res0))"
    by blast
  then have a: "app e rt req = res_json (auth_error msg) (res_status 401 res0)"
    by (simp add: app_past_cors [OF assms(3)])
  show ?thesis
    by (simp add: m a res_json_fields auth_error_type)
qed

theorem unconfigured_secret_rejects_all_witness:
  "auth_middleware open_env (sample_request ''POST'' ''/v1/chat/completions'' (Some ''Bearer undefined'') (JObj [])) res0 \<noteq> Next
   \<and> res_statusCode (app open_env (sample_runtime (Inl \<lparr>err_message = ''down'', err_response = None\<rparr>))
        (sample_request ''POST'' ''/v1/chat/completions'' (Some ''Bearer undefined'') (JObj []))) = 401"
  using unconfigured_secret_rejects_all [of open_env
          "sample_request ''POST'' ''/v1/chat/completions'' (Some ''Bearer undefined'') (JObj [])"
          "sample_runtime (Inl \<lparr>err_message = ''down'', err_response = None\<rparr>)"]
  by (simp add: sample_request_def open_env_def PROXY_SECRET_def)

text \<open>
  C9 as stated fails on an \<^verbatim>\<open>OPTIONS\<close> request: with no secret configured it is
  answered with 204 by \<^verbatim>\<open>cors()\<close>, not with 401. No route handler runs for it.
\<close>
theorem preflight_unconfigured_counterexample:
  "app open_env (sample_runtime (Inl \<lparr>err_message = ''down'', err_response = None\<rparr>))
      (sample_request ''OPTIONS'' ''/v1/chat/completions'' (Some ''Bearer undefined'') (JObj [])) =
     \<lparr>res_statusCode = 204, res_headers = [], res_body = None\<rparr>
   \<and> res_statusCode (app open_env (sample_runtime (Inl \<lparr>err_message = ''down'', err_response = None\<rparr>))
      (sample_request ''OPTIONS'' ''/v1/chat/completions'' (Some ''Bearer undefined'') (JObj []))) \<noteq> 401"
  by (simp add: app_preflight sample_request_def)

lemma health_route_GET:
  "req_method req = ''GET'' \<Longrightarrow> req_path req = ''/health'' \<Longrightarrow> get_route ''/health'' req"
  by (simp add: get_route_def path_matches_def lower_ascii_def)

text \<open>
  C7. \<^verbatim>\<open>GET /health\<close> is answered with status 200 and the body
  \<^verbatim>\<open>{status: "ok", service, authenticated: true}\<close>, whatever the Authorization header and
  the configured secret are.
\<close>
theorem health_always_ok:
  assumes "req_method req = ''GET''" and "req_path req = ''/health''"
  shows "app e rt req =
           \<lparr>res_statusCode = 200, res_headers = [],
            res_body = Some (Json (JObj [(''status'', JStr ''ok''),
                                         (''service'', JStr ''OpenAI to NVIDIA NIM Proxy''),
                                         (''authenticated'', JBool True)]))\<rparr>"
proof -
  have "auth_middleware e req res0 = Next"
    using assms(2) by (simp add: auth_middleware_def)
  moreover have "router e rt req res0 = health_handler res0"
    using health_route_GET [OF assms] by (simp add: router_def)
  moreover have "req_method req \<noteq> ''OPTIONS''"
    using assms(1) by simp
  ultimately show ?thesis
    by (simp add: app_past_cors health_handler_def health_body_def res_json_def res0_def)
qed

theorem health_always_ok_witness:
  "app open_env (sample_runtime (Inl \<lparr>err_message = ''down'', err_response = None\<rparr>))
       (sample_request ''GET'' ''/health'' (Some ''Basic nonsense'') JUndefined) =
     \<lparr>res_statusCode = 200, res_headers = [],
      res_body = Some (Json (JObj [(''status'', JStr ''ok''),
                                   (''service'', JStr ''OpenAI to NVIDIA NIM Proxy''),
                                   (''authenticated'', JBool True)]))\<rparr>
   \<and> app sample_env (sample_runtime (Inl \<lparr>err_message = ''down'', err_response = None\<rparr>))
       (sample_request ''GET'' ''/health'' None JUndefined) =
     \<lparr>res_statusCode = 200, res_headers = [],
      res_body = Some (Json (JObj [(''status'', JStr ''ok''),
                                   (''service'', JStr ''OpenAI to NVIDIA NIM Proxy''),
                                   (''authenticated'', JBool True)]))\<rparr>"
  using health_always_ok [of "sample_request ''GET'' ''/health'' (Some ''Basic nonsense'') JUndefined"
          open_env "sample_runtime (Inl \<lparr>err_message = ''down'', err_response = None\<rparr>)"]
        health_always_ok [of "sample_request ''GET'' ''/health'' None JUndefined"
          sample_env "sample_runtime (Inl \<lparr>err_message = ''down'', err_response = None\<rparr>)"]
  by (simp add: sample_request_def)

text \<open>
  C8, amended. An authenticated request other than an \<^verbatim>\<open>OPTIONS\<close> request, whose path
  decodes with \<^verbatim>\<open>decodeURIComponent\<close> and which matches none of the three routes, is
  answered with status 404 and a JSON body whose error has type
  \<^verbatim>\<open>invalid_request_error\<close>, code 404 and the message \<^verbatim>\<open>Endpoint <path> not found\<close>, which
  contains the request path.
\<close>
theorem unmatched_route_404:
  assumes "req_authorization req = Some (''Bearer '' @ tok)" and "PROXY_SECRET e = Some tok"
    and "\<not> get_route ''/health'' req"
    and "\<not> get_route ''/v1/models'' req"
    and "\<not> post_route ''/v1/chat/completions'' req"
    and "req_method req \<noteq> ''OPTIONS''"
    and "rt_decodeURIComponent rt (req_path req) \<noteq> None"
  shows "res_statusCode (app e rt req) = 404 \<and>
         res_body (app e rt req) =
           Some (Json (JObj [(''error'',
                  JObj [(''message'', JStr (''Endpoint '' @ req_path req @ '' not found'')),
                        (''type'', JStr ''invalid_request_error''),
                        (''code'', JNum 404)])]))"
proof -
  have "auth_middleware e req res0 = Next"
    using assms(1,2) by (rule auth_middleware_accepts)
  then have "app e rt req = not_found_handler req res0"
    using assms(3-5,7) by (auto simp: app_past_cors [OF assms(6)] router_def)
  then show ?thesis
    by (simp add: not_found_handler_def not_found_body_def res_json_fields)
qed

theorem unmatched_route_404_witness:
  "res_statusCode (app sample_env (sample_runtime (Inl \<lparr>err_message = ''down'', err_response = None\<rparr>))
       (sample_request ''GET'' ''/foo'' (Some ''Bearer s3cret'') JUndefined)) = 404
   \<and> res_body (app sample_env (sample_runtime (Inl \<lparr>err_message = ''down'', err_response = None\<rparr>))
       (sample_request ''GET'' ''/foo'' (Some ''Bearer s3cret'') JUndefined)) =
       Some (Json (JObj [(''error'',
                  JObj [(''message'', JStr ''Endpoint /foo not found''),
                        (''type'', JStr ''invalid_request_error''),
                        (''code'', JNum 404)])]))"
  using unmatched_route_404 [of "sample_request ''GET'' ''/foo'' (Some ''Bearer s3cret'') JUndefined"
          "''s3cret''" sample_env "sample_runtime (Inl \<lparr>err_message = ''down'', err_response = None\<rparr>)"]
  by (simp add: sample_request_def sample_env_def PROXY_SECRET_def get_route_def post_route_def
        path_matches_def lower_ascii_def sample_runtime_def)

text \<open>
  C8 as stated fails on an \<^verbatim>\<open>OPTIONS\<close> request: with a valid token and a path no route
  matches, \<^verbatim>\<open>cors()\<close> answers it with 204 before the catch-all is reached.
\<close>
theorem preflight_unmatched_counterexample:
  "auth_middleware sample_env
      (sample_request ''OPTIONS'' ''/foo'' (Some ''Bearer s3cret'') JUndefined) res0 = Next
   \<and> \<not> get_route ''/health'' (sample_request ''OPTIONS'' ''/foo'' (Some ''Bearer s3cret'') JUndefined)
   \<and> \<not> get_route ''/v1/models'' (sample_request ''OPTIONS'' ''/foo'' (Some ''Bearer s3cret'') JUndefined)
   \<and> \<not> post_route ''/v1/chat/completions''
         (sample_request ''OPTIONS'' ''/foo'' (Some ''Bearer s3cret'') JUndefined)
   \<and> app sample_env (sample_runtime (Inl \<lparr>err_message = ''down'', err_response = None\<rparr>))
      (sample_request ''OPTIONS'' ''/foo'' (Some ''Bearer s3cret'') JUndefined) =
     \<lparr>res_statusCode = 204, res_headers = [], res_body = None\<rparr>
   \<and> res_statusCode (app sample_env (sample_runtime (Inl \<lparr>err_message = ''down'', err_response = None\<rparr>))
      (sample_request ''OPTIONS'' ''/foo'' (Some ''Bearer s3cret'') JUndefined)) \<noteq> 404"
  by (simp add: app_preflight sample_request_def auth_middleware_def sample_env_def
        PROXY_SECRET_def startsWith_def get_route_def post_route_def)

section \<open>Chat completions: the properties\<close>

lemma app_reaches_chat_completions:
  assumes "req_method req = ''POST''" and "req_path req = ''/v1/chat/completions''"
    and "req_authorization req = Some (''Bearer '' @ tok)" and "PROXY_SECRET e = Some tok"
  shows "app e rt req = chat_completions e rt req res0"
proof -
  have "auth_middleware e req res0 = Next"
    using assms(3,4) by (rule auth_middleware_accepts)
  moreover have "router e rt req res0 = chat_completions e rt req res0"
    using assms(1,2)
    by (simp add: router_def get_route_def post_route_def path_matches_def lower_ascii_def)
  moreover have "req_method req \<noteq> ''OPTIONS''"
    using assms(1) by simp
  ultimately show ?thesis
    by (simp add: app_past_cors)
qed

lemma outbound_Some:
  "outbound e body = Some (url, payload, options) \<Longrightarrow>
     \<not> nullish body \<and>
     url = NIM_API_BASE e @ ''/chat/completions'' \<and>
     payload = nimRequest (js_get body ''messages'') (js_get body ''temperature'')
                 (js_get body ''max_tokens'') (js_get body ''stream'') \<and>
     options = axios_options e (js_get body ''stream'')"
  by (auto simp: outbound_def split: if_splits)

text \<open>
  C2. Whenever the handler makes its outbound call (it does for every body that is not
  nullish), the payload's \<^verbatim>\<open>model\<close> is the fixed identifier \<^verbatim>\<open>z-ai/glm4.7\<close>, whatever the
  client's \<^verbatim>\<open>model\<close> is, the messages are passed on, and a body without \<^verbatim>\<open>temperature\<close>,
  \<^verbatim>\<open>max_tokens\<close> or \<^verbatim>\<open>stream\<close> gives the defaults 0.7, 2048 and \<^verbatim>\<open>false\<close>.
\<close>
theorem outbound_payload_fixed_model:
  "(\<not> nullish body \<longrightarrow> outbound e body \<noteq> None) \<and>
   (\<forall>url payload options. outbound e body = Some (url, payload, options) \<longrightarrow>
      js_get payload ''model'' = JStr ''z-ai/glm4.7'' \<and>
      js_get payload ''messages'' = js_get body ''messages'' \<and>
      (js_get body ''temperature'' = JUndefined \<longrightarrow> js_get payload ''temperature'' = JNum (7 / 10)) \<and>
      (js_get body ''max_tokens'' = JUndefined \<longrightarrow> js_get payload ''max_tokens'' = JNum 2048) \<and>
      (js_get body ''stream'' = JUndefined \<longrightarrow> js_get payload ''stream'' = JBool False))"
proof (intro conjI impI allI)
  assume "\<not> nullish body"
  then show "outbound e body \<noteq> None" by (simp add: outbound_def)
next
  fix url payload options
  assume "outbound e body = Some (url, payload, options)"
  then have p: "payload = nimRequest (js_get body ''messages'') (js_get body ''temperature'')
                 (js_get body ''max_tokens'') (js_get body ''stream'')"
    by (simp add: outbound_Some)
  show "js_get payload ''model'' = JStr ''z-ai/glm4.7''"
    by (simp add: p nimRequest_def nimModel_def)
  show "js_get payload ''messages'' = js_get body ''messages''"
    by (simp add: p nimRequest_def)
  { assume "js_get body ''temperature'' = JUndefined"
    then show "js_get payload ''temperature'' = JNum (7 / 10)"
      by (simp add: p nimRequest_def js_or_def) }
  { assume "js_get body ''max_tokens'' = JUndefined"
    then show "js_get payload ''max_tokens'' = JNum 2048"
      by (simp add: p nimRequest_def js_or_def) }
  { assume "js_get body ''stream'' = JUndefined"
    then show "js_get payload ''stream'' = JBool False"
      by (simp add: p nimRequest_def js_or_def) }
qed

theorem outbound_payload_fixed_model_witness:
  "outbound sample_env (JObj [(''model'', JStr ''gpt-4o''),
       (''messages'', JArr [JObj [(''role'', JStr ''user''), (''content'', JStr ''hi'')]])]) =
     Some (''https://integrate.api.nvidia.com/v1/chat/completions'',
           JObj [(''model'', JStr ''z-ai/glm4.7''),
                 (''messages'', JArr [JObj [(''role'', JStr ''user''), (''content'', JStr ''hi'')]]),
                 (''temperature'', JNum (7 / 10)),
                 (''max_tokens'', JNum 2048),
                 (''stream'', JBool False)],
           \<lparr>cfg_headers = [(''Authorization'', ''Bearer nvapi-1''),
                           (''Content-Type'', ''application/json'')],
            cfg_responseType = ''json''\<rparr>)
   \<and> js_get (JObj [(''model'', JStr ''z-ai/glm4.7''),
                 (''messages'', JArr [JObj [(''role'', JStr ''user''), (''content'', JStr ''hi'')]]),
                 (''temperature'', JNum (7 / 10)),
                 (''max_tokens'', JNum 2048),
                 (''stream'', JBool False)]) ''model'' = JStr ''z-ai/glm4.7''"
  using outbound_payload_fixed_model [of
          "JObj [(''model'', JStr ''gpt-4o''),
                 (''messages'', JArr [JObj [(''role'', JStr ''user''), (''content'', JStr ''hi'')]])]"
          sample_env]
  by (simp add: outbound_def nimRequest_def nimModel_def js_or_def axios_options_def
        NIM_API_BASE_def NIM_API_KEY_def sample_env_def)

lemma chat_completions_calls_outbound:
  assumes "outbound e (req_body req) = Some (url, payload, options)"
    and "rt_axios_post rt' url payload options = rt_axios_post rt url payload options"
    and "rt_now rt' = rt_now rt" and "rt_number_to_string rt' = rt_number_to_string rt"
    and "rt_type_error_message rt' = rt_type_error_message rt"
  shows "chat_completions e rt' req r = chat_completions e rt req r"
proof -
  have te: "type_error rt' = type_error rt"
    by (intro ext) (simp add: type_error_def assms(5))
  have t: "translate_choice rt' c = translate_choice rt c" for c
    unfolding translate_choice_def merged_content_def js_plus_def te assms(4) ..
  then have t': "translate_choice rt' = translate_choice rt"
    by (intro ext)
  have o: "openaiResponse rt' m d = openaiResponse rt m d" for m d
    unfolding openaiResponse_def te t' assms(3) ..
  have p: "pipe rt' d x = pipe rt d x" for d x
    unfolding pipe_def te ..
  show ?thesis
    unfolding chat_completions_def chat_try_def te o p assms(1) prod.case option.case assms(2) ..
qed

lemma translate_choice_object:
  assumes "js_get choice ''message'' = JObj m"
    and "merged_content rt (JObj m) = Inr content"
  shows "translate_choice rt choice =
           Inr (JObj [(''index'', js_get choice ''index''),
                      (''message'', JObj [(''role'', js_get (JObj m) ''role''),
                                          (''content'', content)]),
                      (''finish_reason'', js_get choice ''finish_reason'')])"
proof -
  have "\<not> nullish choice"
    using assms(1) by (cases choice) simp_all
  then show ?thesis
    using assms by (simp add: translate_choice_def)
qed

lemma translate_choice_shape:
  assumes "translate_choice rt choice = Inr t"
  shows "\<exists>content.
           t = JObj [(''index'', js_get choice ''index''),
                     (''message'', JObj [(''role'', js_get (js_get choice ''message'') ''role''),
                                         (''content'', content)]),
                     (''finish_reason'', js_get choice ''finish_reason'')]"
  using assms
  by (auto simp: translate_choice_def Let_def split: if_splits sum.splits)

lemma js_plus_strings: "js_plus rt (JStr a) (JStr b) = Inr (JStr (a @ b))"
  by (simp add: js_plus_def)

lemma js_plus_own_toString:
  "js_plus rt (JObj [(''toString'', JNum 1)]) (JStr s) =
     Inl (type_error rt (JObj [(''toString'', JNum 1)]) ''toString'')"
  by (simp add: js_plus_def)

lemma merged_content_both:
  assumes "map_of m ''reasoning_content'' = Some (JStr r)" and "r \<noteq> []"
    and "map_of m ''content'' = Some (JStr c)" and "c \<noteq> []"
  shows "merged_content rt (JObj m) = Inr (JStr (r @ [CHR 0x0A, CHR 0x0A] @ c))"
  using assms
  by (simp add: merged_content_def opt_get_def js_or_def js_plus_strings blank_line_def)

lemma merged_content_no_reasoning:
  assumes "map_of m ''reasoning_content'' = None" and "map_of m ''content'' = Some (JStr c)"
  shows "merged_content rt (JObj m) = Inr (JStr c)"
  using assms by (simp add: merged_content_def opt_get_def js_or_def)

lemma merged_content_reasoning_only:
  assumes "map_of m ''reasoning_content'' = Some (JStr r)" and "r \<noteq> []"
    and "map_of m ''content'' = None \<or> map_of m ''content'' = Some JNull \<or>
         map_of m ''content'' = Some (JStr [])"
  shows "merged_content rt (JObj m) = Inr (JStr r)"
  using assms by (auto simp: merged_content_def opt_get_def js_or_def js_plus_strings)

lemma js_or_text: "is_text x \<Longrightarrow> \<exists>c. js_or x (JStr []) = JStr c"
  by (cases x) (auto simp: js_or_def)

lemma truthy_text: "is_text x \<Longrightarrow> truthy x \<Longrightarrow> \<exists>r. x = JStr r"
  by (cases x) auto

lemma merged_content_text:
  assumes "is_text (js_get (JObj m) ''content'')"
    and "is_text (js_get (JObj m) ''reasoning_content'')"
  shows "\<exists>v. merged_content rt (JObj m) = Inr v"
proof -
  have og: "opt_get (JObj m) k = js_get (JObj m) k" for k
    by (simp add: opt_get_def)
  obtain c where c: "js_or (js_get (JObj m) ''content'') (JStr []) = JStr c"
    using js_or_text [OF assms(1)] by blast
  show ?thesis
  proof (cases "truthy (js_get (JObj m) ''reasoning_content'')")
    case False
    then show ?thesis
      by (simp add: merged_content_def og c del: js_get.simps)
  next
    case True
    then obtain r where r: "js_get (JObj m) ''reasoning_content'' = JStr r"
      using truthy_text [OF assms(2)] by blast
    show ?thesis
      using True
      by (cases "c = []")
         (simp_all add: merged_content_def og c r js_plus_strings del: js_get.simps)
  qed
qed

text \<open>
  C3, amended. A translated choice has the fields \<^verbatim>\<open>index\<close>, \<^verbatim>\<open>message\<close> (with \<^verbatim>\<open>role\<close>
  and \<^verbatim>\<open>content\<close> only, so no \<^verbatim>\<open>reasoning_content\<close>) and \<^verbatim>\<open>finish_reason\<close>. For a choice
  whose message is an object: when \<^verbatim>\<open>reasoning_content\<close> and \<^verbatim>\<open>content\<close> are both
  non-empty strings, the choice is translated and its content is the reasoning
  content, a blank line, and the content; when \<^verbatim>\<open>reasoning_content\<close> is absent and
  \<^verbatim>\<open>content\<close> is a string, the choice is translated and its content is unchanged. The
  witness is \<^verbatim>\<open>think\<close> with \<^verbatim>\<open>answer\<close>.
\<close>
theorem merge_reasoning_content:
  assumes "js_get choice ''message'' = JObj m"
  shows "(\<forall>t. translate_choice rt choice = Inr t \<longrightarrow>
            (\<exists>content.
               t = JObj [(''index'', js_get choice ''index''),
                         (''message'', JObj [(''role'', js_get (JObj m) ''role''),
                                             (''content'', content)]),
                         (''finish_reason'', js_get choice ''finish_reason'')])) \<and>
         (\<forall>r c. map_of m ''reasoning_content'' = Some (JStr r) \<and> r \<noteq> [] \<and>
                map_of m ''content'' = Some (JStr c) \<and> c \<noteq> []
                \<longrightarrow> translate_choice rt choice =
                      Inr (JObj [(''index'', js_get choice ''index''),
                                 (''message'',
                                  JObj [(''role'', js_get (JObj m) ''role''),
                                        (''content'', JStr (r @ [CHR 0x0A, CHR 0x0A] @ c))]),
                                 (''finish_reason'', js_get choice ''finish_reason'')])) \<and>
         (\<forall>c. map_of m ''reasoning_content'' = None \<and> map_of m ''content'' = Some (JStr c)
              \<longrightarrow> translate_choice rt choice =
                    Inr (JObj [(''index'', js_get choice ''index''),
                               (''message'',
                                JObj [(''role'', js_get (JObj m) ''role''),
                                      (''content'', JStr c)]),
                               (''finish_reason'', js_get choice ''finish_reason'')]))"
proof (intro conjI allI impI)
  fix t
  assume "translate_choice rt choice = Inr t"
  from translate_choice_shape [OF this]
  show "\<exists>content.
          t = JObj [(''index'', js_get choice ''index''),
                    (''message'', JObj [(''role'', js_get (JObj m) ''role''),
                                        (''content'', content)]),
                    (''finish_reason'', js_get choice ''finish_reason'')]"
    by (simp only: assms)
next
  fix r c
  assume "map_of m ''reasoning_content'' = Some (JStr r) \<and> r \<noteq> [] \<and>
          map_of m ''content'' = Some (JStr c) \<and> c \<noteq> []"
  then have "merged_content rt (JObj m) = Inr (JStr (r @ [CHR 0x0A, CHR 0x0A] @ c))"
    by (simp add: merged_content_both)
  then show "translate_choice rt choice =
               Inr (JObj [(''index'', js_get choice ''index''),
                          (''message'',
                           JObj [(''role'', js_get (JObj m) ''role''),
                                 (''content'', JStr (r @ [CHR 0x0A, CHR 0x0A] @ c))]),
                          (''finish_reason'', js_get choice ''finish_reason'')])"
    by (rule translate_choice_object [OF assms])
next
  fix c
  assume "map_of m ''reasoning_content'' = None \<and> map_of m ''content'' = Some (JStr c)"
  then have "merged_content rt (JObj m) = Inr (JStr c)"
    by (simp add: merged_content_no_reasoning)
  then show "translate_choice rt choice =
               Inr (JObj [(''index'', js_get choice ''index''),
                          (''message'',
                           JObj [(''role'', js_get (JObj m) ''role''),
                                 (''content'', JStr c)]),
                          (''finish_reason'', js_get choice ''finish_reason'')])"
    by (rule translate_choice_object [OF assms])
qed

theorem merge_reasoning_content_witness:
  "translate_choice (sample_runtime (Inl \<lparr>err_message = ''down'', err_response = None\<rparr>))
     (JObj [(''index'', JNum 0),
            (''message'', JObj [(''role'', JStr ''assistant''), (''content'', JStr ''answer''),
                                (''reasoning_content'', JStr ''think'')]),
            (''finish_reason'', JStr ''stop'')]) =
   Inr (JObj [(''index'', JNum 0),
              (''message'', JObj [(''role'', JStr ''assistant''),
                                  (''content'', JStr (''think'' @ [CHR 0x0A, CHR 0x0A] @ ''answer''))]),
              (''finish_reason'', JStr ''stop'')])
   \<and> translate_choice (sample_runtime (Inl \<lparr>err_message = ''down'', err_response = None\<rparr>))
     (JObj [(''index'', JNum 1),
            (''message'', JObj [(''role'', JStr ''assistant''), (''content'', JStr ''answer'')]),
            (''finish_reason'', JStr ''stop'')]) =
   Inr (JObj [(''index'', JNum 1),
              (''message'', JObj [(''role'', JStr ''assistant''), (''content'', JStr ''answer'')]),
              (''finish_reason'', JStr ''stop'')])"
  using merge_reasoning_content [of
          "JObj [(''index'', JNum 0),
            (''message'', JObj [(''role'', JStr ''assistant''), (''content'', JStr ''answer''),
                                (''reasoning_content'', JStr ''think'')]),
            (''finish_reason'', JStr ''stop'')]"
          "[(''role'', JStr ''assistant''), (''content'', JStr ''answer''),
            (''reasoning_content'', JStr ''think'')]"
          "sample_runtime (Inl \<lparr>err_message = ''down'', err_response = None\<rparr>)"]
        merge_reasoning_content [of
          "JObj [(''index'', JNum 1),
            (''message'', JObj [(''role'', JStr ''assistant''), (''content'', JStr ''answer'')]),
            (''finish_reason'', JStr ''stop'')]"
          "[(''role'', JStr ''assistant''), (''content'', JStr ''answer'')]"
          "sample_runtime (Inl \<lparr>err_message = ''down'', err_response = None\<rparr>)"]
  by simp

text \<open>
  C3 as stated fails where the content is empty: the reasoning content \<^verbatim>\<open>think\<close> with
  the content \<^verbatim>\<open>""\<close> translates to \<^verbatim>\<open>think\<close>, with no blank line after it.
\<close>
theorem merge_blank_line_counterexample:
  "translate_choice (sample_runtime (Inl \<lparr>err_message = ''down'', err_response = None\<rparr>))
     (JObj [(''index'', JNum 0),
            (''message'', JObj [(''role'', JStr ''assistant''), (''content'', JStr ''''),
                                (''reasoning_content'', JStr ''think'')]),
            (''finish_reason'', JStr ''stop'')]) =
   Inr (JObj [(''index'', JNum 0),
              (''message'', JObj [(''role'', JStr ''assistant''), (''content'', JStr ''think'')]),
              (''finish_reason'', JStr ''stop'')])
   \<and> JStr ''think'' \<noteq> JStr (''think'' @ [CHR 0x0A, CHR 0x0A] @ '''')"
  by (simp add: translate_choice_def merged_content_def opt_get_def js_or_def js_plus_def)

text \<open>
  C10. When \<^verbatim>\<open>reasoning_content\<close> is a non-empty string and \<^verbatim>\<open>content\<close> is absent,
  \<^verbatim>\<open>null\<close> or the empty string, the translated content is the reasoning content exactly,
  with no separator.
\<close>
theorem reasoning_without_content:
  assumes "js_get choice ''message'' = JObj m"
    and "map_of m ''reasoning_content'' = Some (JStr r)" and "r \<noteq> []"
    and "map_of m ''content'' = None \<or> map_of m ''content'' = Some JNull \<or>
         map_of m ''content'' = Some (JStr [])"
  shows "translate_choice rt choice =
           Inr (JObj [(''index'', js_get choice ''index''),
                      (''message'', JObj [(''role'', js_get (JObj m) ''role''),
                                          (''content'', JStr r)]),
                      (''finish_reason'', js_get choice ''finish_reason'')])"
  using translate_choice_object [OF assms(1) merged_content_reasoning_only [OF assms(2-4)]]
  by simp

theorem reasoning_without_content_witness:
  "translate_choice (sample_runtime (Inl \<lparr>err_message = ''down'', err_response = None\<rparr>))
     (JObj [(''index'', JNum 0),
            (''message'', JObj [(''role'', JStr ''assistant''), (''content'', JNull),
                                (''reasoning_content'', JStr ''think'')]),
            (''finish_reason'', JStr ''stop'')]) =
   Inr (JObj [(''index'', JNum 0),
              (''message'', JObj [(''role'', JStr ''assistant''), (''content'', JStr ''think'')]),
              (''finish_reason'', JStr ''stop'')])"
  using reasoning_without_content [of
          "JObj [(''index'', JNum 0),
            (''message'', JObj [(''role'', JStr ''assistant''), (''content'', JNull),
                                (''reasoning_content'', JStr ''think'')]),
            (''finish_reason'', JStr ''stop'')]"
          "[(''role'', JStr ''assistant''), (''content'', JNull),
            (''reasoning_content'', JStr ''think'')]"
          "''think''"
          "sample_runtime (Inl \<lparr>err_message = ''down'', err_response = None\<rparr>)"]
  by simp

lemma chat_completions_caught:
  "chat_try e rt req r = Inl (err, r') \<Longrightarrow> chat_completions e rt req r = catch_block err r'"
  by (simp add: chat_completions_def)

lemma catch_block_fields:
  "res_statusCode (catch_block err r) = error_status err"
  "res_body (catch_block err r) =
     Some (Json (JObj [(''error'',
                        JObj [(''message'', error_message err),
                              (''type'', JStr ''invalid_request_error''),
                              (''code'', JNum (of_nat (error_status err)))])]))"
  by (simp_all add: catch_block_def res_json_fields)

lemma error_message_cases:
  "truthy (upstream_message err) \<Longrightarrow> error_message err = upstream_message err"
  "\<not> truthy (upstream_message err) \<Longrightarrow> err_message err \<noteq> [] \<Longrightarrow>
     error_message err = JStr (err_message err)"
  "\<not> truthy (upstream_message err) \<Longrightarrow> err_message err = [] \<Longrightarrow>
     error_message err = JStr ''Internal server error''"
  by (simp_all add: error_message_def js_or_def)

text \<open>
  C4, amended. When the \<^verbatim>\<open>try\<close> block throws (the outbound call or the translation
  fails), the response status is the upstream status when the error carries a response
  (an HTTP status is never 0) and 500 otherwise; the body is
  \<^verbatim>\<open>{error: {message, type: "invalid_request_error", code}}\<close> with \<^verbatim>\<open>code\<close> that status.
  The message is the upstream error message when that is a non-empty string, otherwise
  the error's own message when that is not empty, otherwise \<^verbatim>\<open>Internal server error\<close>.
  The witness is an upstream 429 with the message \<^verbatim>\<open>rate limited\<close>.
\<close>
theorem chat_failure_response:
  assumes "chat_try e rt req r = Inl (err, r')"
  shows "\<exists>status msg.
           res_statusCode (chat_completions e rt req r) = status \<and>
           res_body (chat_completions e rt req r) =
             Some (Json (JObj [(''error'',
                                JObj [(''message'', msg),
                                      (''type'', JStr ''invalid_request_error''),
                                      (''code'', JNum (of_nat status))])])) \<and>
           (\<forall>response. err_response err = Some response \<and> 0 < ax_status response
                \<longrightarrow> status = ax_status response) \<and>
           (err_response err = None \<longrightarrow> status = 500) \<and>
           (\<forall>m. upstream_message err = JStr m \<and> m \<noteq> [] \<longrightarrow> msg = JStr m) \<and>
           (\<not> truthy (upstream_message err) \<and> err_message err \<noteq> []
                \<longrightarrow> msg = JStr (err_message err)) \<and>
           (\<not> truthy (upstream_message err) \<and> err_message err = []
                \<longrightarrow> msg = JStr ''Internal server error'')"
proof (intro exI conjI allI impI)
  note c = chat_completions_caught [OF assms]
  show "res_statusCode (chat_completions e rt req r) = error_status err"
    by (simp add: c catch_block_fields)
  show "res_body (chat_completions e rt req r) =
          Some (Json (JObj [(''error'',
                             JObj [(''message'', error_message err),
                                   (''type'', JStr ''invalid_request_error''),
                                   (''code'', JNum (of_nat (error_status err)))])]))"
    by (simp add: c catch_block_fields)
next
  fix response
  assume "err_response err = Some response \<and> 0 < ax_status response"
  then show "error_status err = ax_status response"
    by (simp add: error_status_def)
next
  assume "err_response err = None"
  then show "error_status err = 500"
    by (simp add: error_status_def)
next
  fix m
  assume "upstream_message err = JStr m \<and> m \<noteq> []"
  then show "error_message err = JStr m"
    using error_message_cases(1) [of err] by simp
next
  assume "\<not> truthy (upstream_message err) \<and> err_message err \<noteq> []"
  then show "error_message err = JStr (err_message err)"
    by (simp add: error_message_cases(2))
next
  assume "\<not> truthy (upstream_message err) \<and> err_message err = []"
  then show "error_message err = JStr ''Internal server error''"
    by (simp add: error_message_cases(3))
qed


theorem chat_failure_response_witness:
  "res_statusCode (chat_completions sample_env
      (sample_runtime (Inl \<lparr>err_message = ''Request failed with status code 429'',
         err_response = Some \<lparr>ax_status = 429,
           ax_data = JObj [(''error'', JObj [(''message'', JStr ''rate limited'')])]\<rparr>\<rparr>))
      (sample_request ''POST'' ''/v1/chat/completions'' (Some ''Bearer s3cret'')
         (JObj [(''model'', JStr ''gpt-4o''), (''messages'', JArr [])])) res0) = 429
   \<and> res_body (chat_completions sample_env
      (sample_runtime (Inl \<lparr>err_message = ''Request failed with status code 429'',
         err_response = Some \<lparr>ax_status = 429,
           ax_data = JObj [(''error'', JObj [(''message'', JStr ''rate limited'')])]\<rparr>\<rparr>))
      (sample_request ''POST'' ''/v1/chat/completions'' (Some ''Bearer s3cret'')
         (JObj [(''model'', JStr ''gpt-4o''), (''messages'', JArr [])])) res0) =
     Some (Json (JObj [(''error'',
                        JObj [(''message'', JStr ''rate limited''),
                              (''type'', JStr ''invalid_request_error''),
                              (''code'', JNum 429)])]))"
  using chat_failure_response [of sample_env
      "sample_runtime (Inl \<lparr>err_message = ''Request failed with status code 429'',
         err_response = Some \<lparr>ax_status = 429,
           ax_data = JObj [(''error'', JObj [(''message'', JStr ''rate limited'')])]\<rparr>\<rparr>)"
      "sample_request ''POST'' ''/v1/chat/completions'' (Some ''Bearer s3cret'')
         (JObj [(''model'', JStr ''gpt-4o''), (''messages'', JArr [])])"
      res0
      "\<lparr>err_message = ''Request failed with status code 429'',
         err_response = Some \<lparr>ax_status = 429,
           ax_data = JObj [(''error'', JObj [(''message'', JStr ''rate limited'')])]\<rparr>\<rparr>"
      res0]
  by (auto simp: chat_try_def outbound_def sample_runtime_def sample_request_def
        upstream_message_def opt_get_def)

text \<open>
  C4 as stated fails where the upstream error message is present and empty: the
  message sent is the error's own text, not the upstream message.
\<close>
theorem upstream_empty_message_counterexample:
  "upstream_message \<lparr>err_message = ''Request failed with status code 429'',
         err_response = Some \<lparr>ax_status = 429,
           ax_data = JObj [(''error'', JObj [(''message'', JStr [])])]\<rparr>\<rparr> = JStr []
   \<and> res_body (chat_completions sample_env
      (sample_runtime (Inl \<lparr>err_message = ''Request failed with status code 429'',
         err_response = Some \<lparr>ax_status = 429,
           ax_data = JObj [(''error'', JObj [(''message'', JStr [])])]\<rparr>\<rparr>))
      (sample_request ''POST'' ''/v1/chat/completions'' (Some ''Bearer s3cret'')
         (JObj [(''model'', JStr ''gpt-4o''), (''messages'', JArr [])])) res0) =
     Some (Json (JObj [(''error'',
                        JObj [(''message'', JStr ''Request failed with status code 429''),
                              (''type'', JStr ''invalid_request_error''),
                              (''code'', JNum 429)])]))
   \<and> JStr ''Request failed with status code 429'' \<noteq> JStr []"
  by (simp add: chat_completions_def chat_try_def outbound_def sample_runtime_def
        sample_request_def catch_block_def error_status_def error_message_def
        upstream_message_def opt_get_def js_or_def res_json_def res_status_def)

lemma map_throw_all_ok:
  "\<forall>x\<in>set xs. f x = Inr (g x) \<Longrightarrow> map_throw f xs = Inr (map g xs)"
  by (induction xs) simp_all

lemma translate_choice_text:
  assumes "js_get c ''message'' = JObj m"
    and "is_text (js_get (JObj m) ''content'')"
    and "is_text (js_get (JObj m) ''reasoning_content'')"
  shows "\<exists>t. translate_choice rt c = Inr t"
proof -
  obtain v where "merged_content rt (JObj m) = Inr v"
    using merged_content_text [OF assms(2,3)] by blast
  from translate_choice_object [OF assms(1) this] show ?thesis
    by blast
qed

lemma openaiResponse_ok:
  assumes "js_get data ''choices'' = JArr cs"
    and "\<forall>c\<in>set cs. \<exists>m. js_get c ''message'' = JObj m \<and>
           is_text (js_get (JObj m) ''content'') \<and>
           is_text (js_get (JObj m) ''reasoning_content'')"
  shows "\<exists>v. openaiResponse rt model data =
           Inr (JObj [(''id'', JStr (''chatcmpl-'' @ dec_int (rt_now rt 0))),
                      (''object'', JStr ''chat.completion''),
                      (''created'', JNum (of_int (rt_now rt 1 div 1000))),
                      (''model'', model),
                      (''choices'', JArr (map v cs)),
                      (''usage'', js_or (js_get data ''usage'') zero_usage)]) \<and>
           (\<forall>c\<in>set cs. js_get (v c) ''index'' = js_get c ''index'' \<and>
                        js_get (v c) ''finish_reason'' = js_get c ''finish_reason'')"
proof -
  define v where "v = (\<lambda>c. case translate_choice rt c of Inr t \<Rightarrow> t | Inl err \<Rightarrow> JUndefined)"
  have n: "\<not> nullish data"
    using assms(1) by (cases data) simp_all
  have ok: "translate_choice rt c = Inr (v c)" if "c \<in> set cs" for c
  proof -
    from assms(2) that obtain m where "js_get c ''message'' = JObj m"
      and "is_text (js_get (JObj m) ''content'')"
      and "is_text (js_get (JObj m) ''reasoning_content'')"
      by blast
    then obtain t where "translate_choice rt c = Inr t"
      using translate_choice_text by blast
    then show ?thesis
      by (simp add: v_def)
  qed
  then have "\<forall>c\<in>set cs. translate_choice rt c = Inr (v c)"
    by blast
  then have "map_throw (translate_choice rt) cs = Inr (map v cs)"
    by (rule map_throw_all_ok)
  then have r: "openaiResponse rt model data =
           Inr (JObj [(''id'', JStr (''chatcmpl-'' @ dec_int (rt_now rt 0))),
                      (''object'', JStr ''chat.completion''),
                      (''created'', JNum (of_int (rt_now rt 1 div 1000))),
                      (''model'', model),
                      (''choices'', JArr (map v cs)),
                      (''usage'', js_or (js_get data ''usage'') zero_usage)])"
    using n assms(1) by (simp add: openaiResponse_def)
  have "js_get (v c) ''index'' = js_get c ''index'' \<and>
        js_get (v c) ''finish_reason'' = js_get c ''finish_reason''" if "c \<in> set cs" for c
  proof -
    from translate_choice_shape [OF ok [OF that]]
    obtain content where
      "v c = JObj [(''index'', js_get c ''index''),
                   (''message'', JObj [(''role'', js_get (js_get c ''message'') ''role''),
                                       (''content'', content)]),
                   (''finish_reason'', js_get c ''finish_reason'')]"
      by blast
    then show ?thesis
      by simp
  qed
  with r show ?thesis
    by blast
qed

text \<open>
  C5. For a request whose \<^verbatim>\<open>stream\<close> is falsy, when the outbound call resolves with
  data of the spec's shape (\<^verbatim>\<open>choices\<close> an array of objects, each with a message object
  whose content and reasoning content are text), the response keeps its status and
  carries the envelope: the id \<^verbatim>\<open>chatcmpl-\<close> followed by the clock reading, \<^verbatim>\<open>created\<close> the
  clock reading in seconds, \<^verbatim>\<open>model\<close> the client's own value, one choice per upstream
  choice with the same \<^verbatim>\<open>index\<close> and \<^verbatim>\<open>finish_reason\<close>, and \<^verbatim>\<open>usage\<close> the upstream record
  when there is one and zeros when it is absent.
\<close>
theorem non_streaming_envelope:
  assumes "\<not> truthy (js_get (req_body req) ''stream'')"
    and "outbound e (req_body req) = Some (url, payload, options)"
    and "rt_axios_post rt url payload options = Inr response"
    and "js_get (ax_data response) ''choices'' = JArr cs"
    and "\<forall>c\<in>set cs. \<exists>m. js_get c ''message'' = JObj m \<and>
           is_text (js_get (JObj m) ''content'') \<and>
           is_text (js_get (JObj m) ''reasoning_content'')"
  shows "\<exists>choices usage.
           res_statusCode (chat_completions e rt req r) = res_statusCode r \<and>
           res_body (chat_completions e rt req r) =
             Some (Json (JObj [(''id'', JStr (''chatcmpl-'' @ dec_int (rt_now rt 0))),
                               (''object'', JStr ''chat.completion''),
                               (''created'', JNum (of_int (rt_now rt 1 div 1000))),
                               (''model'', js_get (req_body req) ''model''),
                               (''choices'', JArr choices),
                               (''usage'', usage)])) \<and>
           length choices = length cs \<and>
           (\<forall>i<length cs.
              js_get (choices ! i) ''index'' = js_get (cs ! i) ''index'' \<and>
              js_get (choices ! i) ''finish_reason'' = js_get (cs ! i) ''finish_reason'') \<and>
           (\<forall>u. js_get (ax_data response) ''usage'' = JObj u \<longrightarrow> usage = JObj u) \<and>
           (js_get (ax_data response) ''usage'' = JUndefined \<longrightarrow>
              usage = JObj [(''prompt_tokens'', JNum 0), (''completion_tokens'', JNum 0),
                            (''total_tokens'', JNum 0)])"
proof -
  obtain v where v: "openaiResponse rt (js_get (req_body req) ''model'') (ax_data response) =
      Inr (JObj [(''id'', JStr (''chatcmpl-'' @ dec_int (rt_now rt 0))),
                 (''object'', JStr ''chat.completion''),
                 (''created'', JNum (of_int (rt_now rt 1 div 1000))),
                 (''model'', js_get (req_body req) ''model''),
                 (''choices'', JArr (map v cs)),
                 (''usage'', js_or (js_get (ax_data response) ''usage'') zero_usage)])"
    and vk: "\<forall>c\<in>set cs. js_get (v c) ''index'' = js_get c ''index'' \<and>
                        js_get (v c) ''finish_reason'' = js_get c ''finish_reason''"
    using openaiResponse_ok [OF assms(4,5), of rt "js_get (req_body req) ''model''"]
    by blast
  have t: "chat_completions e rt req r =
             res_json (JObj [(''id'', JStr (''chatcmpl-'' @ dec_int (rt_now rt 0))),
                 (''object'', JStr ''chat.completion''),
                 (''created'', JNum (of_int (rt_now rt 1 div 1000))),
                 (''model'', js_get (req_body req) ''model''),
                 (''choices'', JArr (map v cs)),
                 (''usage'', js_or (js_get (ax_data response) ''usage'') zero_usage)]) r"
    using assms(1-3) v by (simp add: chat_completions_def chat_try_def)
  show ?thesis
  proof (intro exI conjI allI impI)
    show "res_statusCode (chat_completions e rt req r) = res_statusCode r"
      by (simp add: t res_json_def)
    show "res_body (chat_completions e rt req r) =
             Some (Json (JObj [(''id'', JStr (''chatcmpl-'' @ dec_int (rt_now rt 0))),
                               (''object'', JStr ''chat.completion''),
                               (''created'', JNum (of_int (rt_now rt 1 div 1000))),
                               (''model'', js_get (req_body req) ''model''),
                               (''choices'', JArr (map v cs)),
                               (''usage'', js_or (js_get (ax_data response) ''usage'') zero_usage)]))"
      by (simp add: t res_json_def)
    show "length (map v cs) = length cs"
      by simp
  next
    fix i
    assume "i < length cs"
    then have "cs ! i \<in> set cs"
      by simp
    with vk \<open>i < length cs\<close>
    show "js_get (map v cs ! i) ''index'' = js_get (cs ! i) ''index''"
      and "js_get (map v cs ! i) ''finish_reason'' = js_get (cs ! i) ''finish_reason''"
      by simp_all
  next
    fix u
    assume "js_get (ax_data response) ''usage'' = JObj u"
    then show "js_or (js_get (ax_data response) ''usage'') zero_usage = JObj u"
      by (simp add: js_or_def)
  next
    assume "js_get (ax_data response) ''usage'' = JUndefined"
    then show "js_or (js_get (ax_data response) ''usage'') zero_usage =
                 JObj [(''prompt_tokens'', JNum 0), (''completion_tokens'', JNum 0),
                       (''total_tokens'', JNum 0)]"
      by (simp add: js_or_def zero_usage_def)
  qed
qed

theorem non_streaming_envelope_witness:
  "\<exists>choices usage.
     res_statusCode (chat_completions sample_env
        (sample_runtime (Inr \<lparr>ax_status = 200,
           ax_data = JObj [(''choices'',
               JArr [JObj [(''index'', JNum 0),
                           (''message'', JObj [(''role'', JStr ''assistant''),
                                               (''content'', JStr ''hello'')]),
                           (''finish_reason'', JStr ''stop'')]]),
             (''usage'', JObj [(''prompt_tokens'', JNum 3), (''completion_tokens'', JNum 1),
                               (''total_tokens'', JNum 4)])]\<rparr>))
        (sample_request ''POST'' ''/v1/chat/completions'' (Some ''Bearer s3cret'')
           (JObj [(''model'', JStr ''gpt-4o''),
                  (''messages'', JArr [JObj [(''role'', JStr ''user''), (''content'', JStr ''hi'')]])]))
        res0) = 200 \<and>
     res_body (chat_completions sample_env
        (sample_runtime (Inr \<lparr>ax_status = 200,
           ax_data = JObj [(''choices'',
               JArr [JObj [(''index'', JNum 0),
                           (''message'', JObj [(''role'', JStr ''assistant''),
                                               (''content'', JStr ''hello'')]),
                           (''finish_reason'', JStr ''stop'')]]),
             (''usage'', JObj [(''prompt_tokens'', JNum 3), (''completion_tokens'', JNum 1),
                               (''total_tokens'', JNum 4)])]\<rparr>))
        (sample_request ''POST'' ''/v1/chat/completions'' (Some ''Bearer s3cret'')
           (JObj [(''model'', JStr ''gpt-4o''),
                  (''messages'', JArr [JObj [(''role'', JStr ''user''), (''content'', JStr ''hi'')]])]))
        res0) =
       Some (Json (JObj [(''id'', JStr ''chatcmpl-1700000000123''),
                         (''object'', JStr ''chat.completion''),
                         (''created'', JNum 1700000000),
                         (''model'', JStr ''gpt-4o''),
                         (''choices'', JArr choices),
                         (''usage'', usage)])) \<and>
     length choices = 1 \<and>
     js_get (choices ! 0) ''index'' = JNum 0 \<and>
     js_get (choices ! 0) ''finish_reason'' = JStr ''stop'' \<and>
     usage = JObj [(''prompt_tokens'', JNum 3), (''completion_tokens'', JNum 1),
                   (''total_tokens'', JNum 4)]"
  using non_streaming_envelope [of
      "sample_request ''POST'' ''/v1/chat/completions'' (Some ''Bearer s3cret'')
           (JObj [(''model'', JStr ''gpt-4o''),
                  (''messages'', JArr [JObj [(''role'', JStr ''user''), (''content'', JStr ''hi'')]])])"
      sample_env
      "NIM_API_BASE sample_env @ ''/chat/completions''"
      "nimRequest (JArr [JObj [(''role'', JStr ''user''), (''content'', JStr ''hi'')]])
         JUndefined JUndefined JUndefined"
      "axios_options sample_env JUndefined"
      "sample_runtime (Inr \<lparr>ax_status = 200,
           ax_data = JObj [(''choices'',
               JArr [JObj [(''index'', JNum 0),
                           (''message'', JObj [(''role'', JStr ''assistant''),
                                               (''content'', JStr ''hello'')]),
                           (''finish_reason'', JStr ''stop'')]]),
             (''usage'', JObj [(''prompt_tokens'', JNum 3), (''completion_tokens'', JNum 1),
                               (''total_tokens'', JNum 4)])]\<rparr>)"
      "\<lparr>ax_status = 200,
           ax_data = JObj [(''choices'',
               JArr [JObj [(''index'', JNum 0),
                           (''message'', JObj [(''role'', JStr ''assistant''),
                                               (''content'', JStr ''hello'')]),
                           (''finish_reason'', JStr ''stop'')]]),
             (''usage'', JObj [(''prompt_tokens'', JNum 3), (''completion_tokens'', JNum 1),
                               (''total_tokens'', JNum 4)])]\<rparr>"
      "[JObj [(''index'', JNum 0),
                           (''message'', JObj [(''role'', JStr ''assistant''),
                                               (''content'', JStr ''hello'')]),
                           (''finish_reason'', JStr ''stop'')]]"
      res0]
  by (simp add: sample_request_def sample_runtime_def outbound_def res0_def dec_int_def)

lemma map_of_setHeader:
  "map_of (res_headers (res_setHeader k v r)) k' =
     (if k' = k then Some v else map_of (res_headers r) k')"
proof -
  have "map_of (filter (\<lambda>kv. fst kv \<noteq> k) xs @ [(k, v)]) k' =
          (if k' = k then Some v else map_of xs k')" for xs
    by (induction xs) auto
  then show ?thesis
    by (simp add: res_setHeader_def)
qed

lemma event_stream_headers_fields:
  "map_of (res_headers (event_stream_headers r)) ''Content-Type'' = Some ''text/event-stream''"
  "map_of (res_headers (event_stream_headers r)) ''Cache-Control'' = Some ''no-cache''"
  "map_of (res_headers (event_stream_headers r)) ''Connection'' = Some ''keep-alive''"
  "res_statusCode (event_stream_headers r) = res_statusCode r"
  by (simp_all add: event_stream_headers_def map_of_setHeader) (simp add: res_setHeader_def)

text \<open>
  C6, amended. For a request with \<^verbatim>\<open>stream: true\<close> whose outbound call resolves with a
  stream, the call was made with response type \<^verbatim>\<open>stream\<close>, the response has
  \<^verbatim>\<open>Content-Type: text/event-stream\<close>, \<^verbatim>\<open>Cache-Control: no-cache\<close> and
  \<^verbatim>\<open>Connection: keep-alive\<close>, its status is unchanged, and what is sent is exactly the
  chunks of the upstream stream.
\<close>
theorem streaming_relay:
  assumes "js_get (req_body req) ''stream'' = JBool True"
    and "outbound e (req_body req) = Some (url, payload, options)"
    and "rt_axios_post rt url payload options = Inr response"
    and "ax_data response = JStream chunks"
  shows "cfg_responseType options = ''stream'' \<and>
         map_of (res_headers (chat_completions e rt req r)) ''Content-Type'' = Some ''text/event-stream'' \<and>
         map_of (res_headers (chat_completions e rt req r)) ''Cache-Control'' = Some ''no-cache'' \<and>
         map_of (res_headers (chat_completions e rt req r)) ''Connection'' = Some ''keep-alive'' \<and>
         res_statusCode (chat_completions e rt req r) = res_statusCode r \<and>
         res_body (chat_completions e rt req r) = Some (Piped chunks)"
proof -
  have o: "options = axios_options e (js_get (req_body req) ''stream'')"
    using assms(2) by (simp add: outbound_Some)
  have c: "chat_completions e rt req r = (event_stream_headers r)\<lparr>res_body := Some (Piped chunks)\<rparr>"
    using assms by (simp add: chat_completions_def chat_try_def pipe_def)
  show ?thesis
    by (simp add: c event_stream_headers_fields o assms(1) axios_options_def)
qed

theorem streaming_relay_witness:
  "map_of (res_headers (chat_completions sample_env
      (sample_runtime (Inr \<lparr>ax_status = 200, ax_data = JStream [''data: a'', ''data: b'']\<rparr>))
      (sample_request ''POST'' ''/v1/chat/completions'' (Some ''Bearer s3cret'')
         (JObj [(''model'', JStr ''gpt-4o''), (''messages'', JArr []), (''stream'', JBool True)]))
      res0)) ''Content-Type'' = Some ''text/event-stream''
   \<and> res_body (chat_completions sample_env
      (sample_runtime (Inr \<lparr>ax_status = 200, ax_data = JStream [''data: a'', ''data: b'']\<rparr>))
      (sample_request ''POST'' ''/v1/chat/completions'' (Some ''Bearer s3cret'')
         (JObj [(''model'', JStr ''gpt-4o''), (''messages'', JArr []), (''stream'', JBool True)]))
      res0) = Some (Piped [''data: a'', ''data: b''])"
  using streaming_relay [of
      "sample_request ''POST'' ''/v1/chat/completions'' (Some ''Bearer s3cret'')
         (JObj [(''model'', JStr ''gpt-4o''), (''messages'', JArr []), (''stream'', JBool True)])"
      sample_env
      "NIM_API_BASE sample_env @ ''/chat/completions''"
      "nimRequest (JArr []) JUndefined JUndefined (JBool True)"
      "axios_options sample_env (JBool True)"
      "sample_runtime (Inr \<lparr>ax_status = 200, ax_data = JStream [''data: a'', ''data: b'']\<rparr>)"
      "\<lparr>ax_status = 200, ax_data = JStream [''data: a'', ''data: b'']\<rparr>"
      "[''data: a'', ''data: b'']"
      res0]
  by (simp add: sample_request_def sample_runtime_def outbound_def)

text \<open>
  C6 as stated fails where the outbound call of a streaming request is rejected: the
  \<^verbatim>\<open>catch\<close> block answers with a JSON error and no event-stream header is set.
\<close>
theorem streaming_failure_counterexample:
  "chat_completions sample_env
      (sample_runtime (Inl \<lparr>err_message = ''Request failed with status code 429'',
         err_response = Some \<lparr>ax_status = 429, ax_data = JStream [''busy'']\<rparr>\<rparr>))
      (sample_request ''POST'' ''/v1/chat/completions'' (Some ''Bearer s3cret'')
         (JObj [(''model'', JStr ''gpt-4o''), (''messages'', JArr []), (''stream'', JBool True)]))
      res0 =
    \<lparr>res_statusCode = 429,
     res_headers = [],
     res_body = Some (Json (JObj [(''error'',
                  JObj [(''message'', JStr ''Request failed with status code 429''),
                        (''type'', JStr ''invalid_request_error''),
                        (''code'', JNum 429)])]))\<rparr>
   \<and> map_of ([] :: (string \<times> string) list) ''Content-Type'' \<noteq> Some ''text/event-stream''"
  by (simp add: chat_completions_def chat_try_def outbound_def sample_runtime_def
        sample_request_def catch_block_def error_status_def error_message_def
        upstream_message_def opt_get_def js_or_def res_json_def res_status_def res0_def)

end
